theory Spec2Isabelle
  imports Complex_Main
begin

section \<open>Configuration: \<^verbatim>\<open>config.py\<close>\<close>

text \<open>
  \<^verbatim>\<open>AppSettings\<close> is a settings class with three optional API keys
  (\<^verbatim>\<open>str | None\<close>, default \<^verbatim>\<open>None\<close>) and three string fields with defaults.
\<close>

record AppSettings =
  gemini_api_key :: "string option"
  openai_api_key :: "string option"
  anthropic_api_key :: "string option"
  screenshot_path :: string
  test_url :: string
  node_executable :: string

definition default_settings :: AppSettings where
  "default_settings =
     \<lparr>gemini_api_key = None, openai_api_key = None, anthropic_api_key = None,
      screenshot_path = ''screenshot.png'', test_url = ''https://example.com'',
      node_executable = ''node''\<rparr>"

text \<open>
  Python truth value of a \<^verbatim>\<open>str | None\<close>: \<^verbatim>\<open>None\<close> and the empty string are falsy.
  \<^verbatim>\<open>a or b\<close> evaluates to \<^verbatim>\<open>a\<close> when \<^verbatim>\<open>a\<close> is truthy and to \<^verbatim>\<open>b\<close> itself
  otherwise, whatever the truth value of \<^verbatim>\<open>b\<close>.
\<close>

definition truthy_str :: "string option \<Rightarrow> bool" where
  "truthy_str v = (case v of None \<Rightarrow> False | Some s \<Rightarrow> s \<noteq> [])"

definition py_or :: "string option \<Rightarrow> string option \<Rightarrow> string option" where
  "py_or a b = (if truthy_str a then a else b)"

text \<open>
  \<^verbatim>\<open>return self.gemini_api_key or self.openai_api_key or self.anthropic_api_key\<close>
\<close>

definition api_key :: "AppSettings \<Rightarrow> string option" where
  "api_key s = py_or (gemini_api_key s) (py_or (openai_api_key s) (anthropic_api_key s))"

text \<open>\<^verbatim>\<open>return self.api_key is not None\<close>\<close>

definition has_api_key :: "AppSettings \<Rightarrow> bool" where
  "has_api_key s = (api_key s \<noteq> None)"

section \<open>Python values and built-ins used by the notebooks\<close>

text \<open>
  The notebooks read result payloads that are dictionaries decoded from JSON. A key of
  such a dictionary is in one of three states, which the code tells apart:
  \<^verbatim>\<open>d.get(k)\<close> is \<^verbatim>\<open>None\<close> both for a missing key and for a key bound to
  \<^verbatim>\<open>None\<close>, while \<^verbatim>\<open>d.get(k, default)\<close> is the default only for a missing key.
\<close>

datatype 'a slot = Missing | Null | Val 'a

text \<open>\<^verbatim>\<open>d.get(k)\<close>\<close>

definition get :: "'a slot \<Rightarrow> 'a option" where
  "get s = (case s of Missing \<Rightarrow> None | Null \<Rightarrow> None | Val v \<Rightarrow> Some v)"

text \<open>\<^verbatim>\<open>d.get(k, default)\<close>, with \<open>None\<close> for Python's \<^verbatim>\<open>None\<close>\<close>

definition get_default :: "'a slot \<Rightarrow> 'a \<Rightarrow> 'a option" where
  "get_default s d = (case s of Missing \<Rightarrow> Some d | Null \<Rightarrow> None | Val v \<Rightarrow> Some v)"

text \<open>The exceptions that the modelled expressions can raise.\<close>

datatype error = TypeError | AttributeError | KeyError

text \<open>
  Numbers. A JSON number is decoded to a Python \<^verbatim>\<open>int\<close> or \<^verbatim>\<open>float\<close>; here a
  number is an exact rational, and \<^verbatim>\<open>sum\<close> and \<^verbatim>\<open>/\<close> are exact. Python rounds
  every float operation to a binary double, so a value computed here is the exact value
  of which Python holds a rounding. What is proved below about numbers depends on which
  operands are combined, on \<^verbatim>\<open>None\<close> and on truth values, and holds with either
  arithmetic unless said otherwise.
\<close>

type_synonym number = rat

text \<open>
  \<^verbatim>\<open>str(n)\<close> for a non-negative \<^verbatim>\<open>int\<close>, as in \<^verbatim>\<open>{len(issues)}\<close>.
\<close>

definition digit :: "nat \<Rightarrow> char" where
  "digit n = ''0123456789'' ! n"

fun show_nat :: "nat \<Rightarrow> string" where
  "show_nat n = (if n < 10 then [digit n] else show_nat (n div 10) @ [digit (n mod 10)])"

declare show_nat.simps [simp del]

text \<open>
  The format specification \<^verbatim>\<open>.Nf\<close>: fixed point with \<open>d\<close> digits after the point,
  the value rounded to the nearest multiple of \<open>10\<^sup>-\<^sup>d\<close>, a tie to the even
  neighbour, the sign kept (\<^verbatim>\<open>f"{-0.01:.1f}"\<close> is \<^verbatim>\<open>-0.0\<close>). The model
  rounds the exact rational; Python rounds the binary double that holds it, so the two
  texts can differ where the decimal is not exact in binary (Python shows 0.35 as
  \<^verbatim>\<open>0.3\<close>, the model as \<^verbatim>\<open>0.4\<close>), and Python raises OverflowError on an
  \<^verbatim>\<open>int\<close> beyond the range of a double. The values formatted in the theorems
  below are exact in binary.
\<close>

definition round_half_even :: "rat \<Rightarrow> int" where
  "round_half_even x =
     (let f = \<lfloor>x\<rfloor>; r = x - of_int f
      in if r < 1 / 2 then f else if 1 / 2 < r then f + 1 else if even f then f else f + 1)"

definition zero_pad :: "nat \<Rightarrow> string \<Rightarrow> string" where
  "zero_pad d s = replicate (d - length s) CHR ''0'' @ s"

definition format_f :: "nat \<Rightarrow> number \<Rightarrow> string" where
  "format_f d x =
     (let n = nat (round_half_even (\<bar>x\<bar> * 10 ^ d))
      in (if x < 0 then ''-'' else []) @ show_nat (n div 10 ^ d)
         @ (if d = 0 then [] else ''.'' @ zero_pad d (show_nat (n mod 10 ^ d))))"

text \<open>\<^verbatim>\<open>sep.join(xs)\<close>\<close>

fun join :: "string \<Rightarrow> string list \<Rightarrow> string" where
  "join sep [] = []"
| "join sep [x] = x"
| "join sep (x # y # ys) = x @ sep @ join sep (y # ys)"

text \<open>\<^verbatim>\<open>chr(10)\<close>, also the \<^verbatim>\<open>\n\<close> of a string literal\<close>

definition nl :: string where
  "nl = [CHR 0x0A]"

section \<open>Multi-modal validation: \<^verbatim>\<open>multi_modal_validation.py\<close>\<close>

subsection \<open>The result payload\<close>

text \<open>
  The payload returned by \<^verbatim>\<open>multiModalValidation\<close>, of which the notebook builds a
  mock: a dictionary with a list of perspectives, each carrying an evaluation, and the
  aggregates stored by the library. Every key is a \<^typ>\<open>'a slot\<close>; a record's extension
  part stands for keys that the notebook never reads.
\<close>

record evaluation =
  score :: "number slot"
  issues :: "string list slot"
  assessment :: "string slot"
  reasoning :: "string slot"

record perspective =
  persona :: "string slot"
  focus :: "string slot"
  evaluation :: "evaluation slot"

record rendered_code =
  html :: "string slot"
  css :: "string slot"

record result =
  screenshotPath :: "string slot"
  renderedCode :: "rendered_code slot"
  perspectives :: "perspective list slot"
  aggregatedScore :: "number slot"
  aggregatedIssues :: "string list slot"

text \<open>The empty dictionary \<^verbatim>\<open>{}\<close> at each of the record types.\<close>

definition empty_evaluation :: evaluation where
  "empty_evaluation = \<lparr>score = Missing, issues = Missing, assessment = Missing, reasoning = Missing\<rparr>"

definition empty_result :: result where
  "empty_result =
     \<lparr>screenshotPath = Missing, renderedCode = Missing, perspectives = Missing,
      aggregatedScore = Missing, aggregatedIssues = Missing\<rparr>"

subsection \<open>Step 2: the aggregated score\<close>

text \<open>
  \<^verbatim>\<open>p.get("evaluation", {}).get("score")\<close>: an evaluation bound to \<^verbatim>\<open>None\<close> has no
  method \<^verbatim>\<open>get\<close>.
\<close>

definition score_of :: "perspective \<Rightarrow> error + number option" where
  "score_of p =
     (case get_default (evaluation p) empty_evaluation of
        None \<Rightarrow> Inl AttributeError
      | Some e \<Rightarrow> Inr (get (score e)))"

text \<open>
  The list comprehension
  \<^verbatim>\<open>[p["evaluation"]["score"] for p in ... if p.get("evaluation", {}).get("score") is not None]\<close>
  over a list of perspectives: the first exception ends it.
\<close>

fun collect_scores :: "perspective list \<Rightarrow> error + number list" where
  "collect_scores [] = Inr []"
| "collect_scores (p # ps) =
     (case score_of p of
        Inl e \<Rightarrow> Inl e
      | Inr None \<Rightarrow> collect_scores ps
      | Inr (Some x) \<Rightarrow>
          (case collect_scores ps of Inl e \<Rightarrow> Inl e | Inr xs \<Rightarrow> Inr (x # xs)))"

text \<open>
  \<^verbatim>\<open>perspective_scores\<close>, line 155: the comprehension over
  \<^verbatim>\<open>result.get("perspectives", [])\<close>; \<^verbatim>\<open>None\<close> is not iterable.
\<close>

definition perspective_scores :: "result \<Rightarrow> error + number list" where
  "perspective_scores r =
     (case get_default (perspectives r) [] of
        None \<Rightarrow> Inl TypeError
      | Some ps \<Rightarrow> collect_scores ps)"

text \<open>
  \<^verbatim>\<open>(sum(perspective_scores) / len(perspective_scores) if perspective_scores else None)\<close>
\<close>

definition mean_score :: "number list \<Rightarrow> number option" where
  "mean_score scores =
     (if scores \<noteq> [] then Some (sum_list scores / of_nat (length scores)) else None)"

text \<open>
  The truth value of \<^verbatim>\<open>result.get("aggregatedScore")\<close>: \<^verbatim>\<open>None\<close> and zero are
  falsy.
\<close>

definition truthy_num :: "number option \<Rightarrow> bool" where
  "truthy_num v = (case v of None \<Rightarrow> False | Some x \<Rightarrow> x \<noteq> 0)"

text \<open>
  \<^verbatim>\<open>avg_score\<close>, line 156:
  \<^verbatim>\<open>result.get("aggregatedScore") or (sum(...) / len(...) if perspective_scores else None)\<close>,
  evaluated after line 155, whose exception it inherits.
\<close>

definition avg_score :: "result \<Rightarrow> error + number option" where
  "avg_score r =
     (case perspective_scores r of
        Inl e \<Rightarrow> Inl e
      | Inr scores \<Rightarrow>
          Inr (if truthy_num (get (aggregatedScore r)) then get (aggregatedScore r)
               else mean_score scores))"

text \<open>
  \<^verbatim>\<open>score_display = f"{avg_score:.1f}/10" if avg_score is not None else "N/A"\<close>, line 158
\<close>

definition score_display :: "number option \<Rightarrow> string" where
  "score_display avg = (case avg of Some a \<Rightarrow> format_f 1 a @ ''/10'' | None \<Rightarrow> ''N/A'')"

text \<open>
  Lines 155 to 158 in sequence: the text that the summary shows after
  \<^verbatim>\<open>**Aggregated Score:**\<close>.
\<close>

definition shown_score :: "result \<Rightarrow> error + string" where
  "shown_score r = (case avg_score r of Inl e \<Rightarrow> Inl e | Inr a \<Rightarrow> Inr (score_display a))"

text \<open>
  The counts shown by the summary: \<^verbatim>\<open>len(result.get("perspectives", []))\<close>, line 172,
  and \<^verbatim>\<open>len(result.get("aggregatedIssues", []))\<close>, line 174. \<^verbatim>\<open>len(None)\<close> raises.
\<close>

definition perspectives_count :: "result \<Rightarrow> error + nat" where
  "perspectives_count r =
     (case get_default (perspectives r) [] of None \<Rightarrow> Inl TypeError | Some ps \<Rightarrow> Inr (length ps))"

definition aggregated_issues_count :: "result \<Rightarrow> error + nat" where
  "aggregated_issues_count r =
     (case get_default (aggregatedIssues r) [] of None \<Rightarrow> Inl TypeError | Some xs \<Rightarrow> Inr (length xs))"

subsection \<open>Step 3: the perspective details and the aggregated issues\<close>

text \<open>
  \<^verbatim>\<open>score = eval_data.get("score", "N/A")\<close> and
  \<^verbatim>\<open>score_str = f"{score:.1f}/10" if isinstance(score, (int, float)) else str(score)\<close>:
  the default is for a missing key only, and \<^verbatim>\<open>str(None)\<close> is \<^verbatim>\<open>None\<close>.
\<close>

definition score_str :: "number slot \<Rightarrow> string" where
  "score_str s =
     (case s of Missing \<Rightarrow> ''N/A'' | Null \<Rightarrow> ''None'' | Val x \<Rightarrow> format_f 1 x @ ''/10'')"

text \<open>
  \<^verbatim>\<open>issues_text = chr(10).join(f"  - {issue}" for issue in issues) if issues else "  - None"\<close>:
  \<^verbatim>\<open>None\<close> and the empty list are falsy.
\<close>

definition issues_text :: "string list option \<Rightarrow> string" where
  "issues_text v =
     (case v of
        None \<Rightarrow> ''  - None''
      | Some [] \<Rightarrow> ''  - None''
      | Some (x # xs) \<Rightarrow> join nl (map (\<lambda>issue. ''  - '' @ issue) (x # xs)))"

text \<open>
  A replacement field \<^verbatim>\<open>{p.get(k, default)}\<close> of an f-string, for a key that holds
  a string.
\<close>

definition str_get :: "string slot \<Rightarrow> string \<Rightarrow> string" where
  "str_get s d = (case s of Missing \<Rightarrow> d | Null \<Rightarrow> ''None'' | Val v \<Rightarrow> v)"

definition indent :: "nat \<Rightarrow> string" where
  "indent n = replicate n CHR '' ''"

text \<open>
  The body of the loop, lines 191 to 202: the text appended for one perspective.
  \<^verbatim>\<open>eval_data.get\<close> raises when the evaluation is \<^verbatim>\<open>None\<close>, and
  \<^verbatim>\<open>len(issues)\<close> when the issues are.
\<close>

definition perspective_entry :: "perspective \<Rightarrow> error + string" where
  "perspective_entry p =
     (case get_default (evaluation p) empty_evaluation of
        None \<Rightarrow> Inl AttributeError
      | Some eval_data \<Rightarrow>
          (case get_default (issues eval_data) [] of
             None \<Rightarrow> Inl TypeError
           | Some xs \<Rightarrow>
               Inr (nl @ indent 12 @ ''### '' @ str_get (persona p) ''Unknown'' @ '' Perspective''
                    @ nl @ indent 12 @ ''- **Score:** '' @ score_str (score eval_data)
                    @ nl @ indent 12 @ ''- **Focus:** '' @ str_get (focus p) ''N/A''
                    @ nl @ indent 12 @ ''- **Issues:** '' @ show_nat (length xs)
                    @ nl @ indent 12 @ issues_text (Some xs)
                    @ nl @ indent 12)))"

text \<open>The loop of line 190, which fills the list \<^verbatim>\<open>perspective_text\<close>.\<close>

fun perspective_text :: "perspective list \<Rightarrow> error + string list" where
  "perspective_text [] = Inr []"
| "perspective_text (p # ps) =
     (case perspective_entry p of
        Inl e \<Rightarrow> Inl e
      | Inr t \<Rightarrow> (case perspective_text ps of Inl e \<Rightarrow> Inl e | Inr ts \<Rightarrow> Inr (t # ts)))"

text \<open>
  Lines 188 to 203: the document handed to \<^verbatim>\<open>mo.md\<close>, or \<open>None\<close> when
  \<^verbatim>\<open>result.get("perspectives")\<close> is falsy and the section is left out.
\<close>

definition perspective_details :: "result \<Rightarrow> error + string option" where
  "perspective_details r =
     (case get (perspectives r) of
        None \<Rightarrow> Inr None
      | Some [] \<Rightarrow> Inr None
      | Some (p # ps) \<Rightarrow>
          (case perspective_text (p # ps) of
             Inl e \<Rightarrow> Inl e
           | Inr ts \<Rightarrow> Inr (Some (''## Perspective Details'' @ nl @ join nl ts))))"

text \<open>Lines 206 to 211: the list of the stored aggregated issues.\<close>

definition aggregated_issues_md :: "result \<Rightarrow> string option" where
  "aggregated_issues_md r =
     (case get (aggregatedIssues r) of
        None \<Rightarrow> None
      | Some [] \<Rightarrow> None
      | Some (x # xs) \<Rightarrow>
          Some (nl @ indent 8 @ ''### Aggregated Issues''
                @ nl @ indent 8
                @ nl @ indent 8 @ join nl (map (\<lambda>issue. ''- '' @ issue) (x # xs))
                @ nl @ indent 8))"

subsection \<open>The mock payload of the notebook\<close>

text \<open>
  The value of \<^verbatim>\<open>mock_result\<close>, lines 114 to 140, at the keys the model keeps:
  one perspective, scored 8.5 on the 0 to 10 scale, with one issue.
\<close>

definition mock_evaluation :: evaluation where
  "mock_evaluation =
     \<lparr>score = Val (85 / 10), issues = Val [''Minor contrast issue''],
      assessment = Val ''Good overall design'',
      reasoning = Val ''Well-structured layout with minor improvements needed''\<rparr>"

definition mock_perspective :: perspective where
  "mock_perspective =
     \<lparr>persona = Val ''Design Critic'', focus = Val ''aesthetics'',
      evaluation = Val mock_evaluation\<rparr>"

definition mock_result :: result where
  "mock_result =
     \<lparr>screenshotPath = Val ''test-results/multimodal-homepage-test-1234567890.png'',
      renderedCode = Val \<lparr>html = Val ''<html>...</html>'', css = Val ''body {{ ... }}''\<rparr>,
      perspectives = Val [mock_perspective],
      aggregatedScore = Val (85 / 10),
      aggregatedIssues = Val [''Minor contrast issue'']\<rparr>"

section \<open>Persona testing: \<^verbatim>\<open>persona_testing.py\<close>\<close>

text \<open>
  The functions below take the \<^verbatim>\<open>evaluation\<close> key of one persona result.
  Line 195, the score cell of the table:
  \<^verbatim>\<open>f"{r['evaluation']['score']:.2f}" if r.get("evaluation", {}).get("score") is not None else "N/A"\<close>
\<close>

definition score_cell :: "evaluation slot \<Rightarrow> error + string" where
  "score_cell ev =
     (case get_default ev empty_evaluation of
        None \<Rightarrow> Inl AttributeError
      | Some e \<Rightarrow> Inr (case get (score e) of None \<Rightarrow> ''N/A'' | Some x \<Rightarrow> format_f 2 x))"

definition dq :: string where
  "dq = [CHR 0x22]"

text \<open>
  Lines 216 to 223: \<^verbatim>\<open>score_display\<close> of the detailed analysis, coloured by
  thresholds on the 0 to 1 scale.
\<close>

definition score_color :: "number \<Rightarrow> string" where
  "score_color x = (if 8 / 10 \<le> x then ''green'' else if 6 / 10 \<le> x then ''orange'' else ''red'')"

definition persona_score_display :: "evaluation slot \<Rightarrow> error + string" where
  "persona_score_display ev =
     (case get_default ev empty_evaluation of
        None \<Rightarrow> Inl AttributeError
      | Some e \<Rightarrow>
          Inr (case get (score e) of
                 Some x \<Rightarrow> ''<span style='' @ dq @ ''color: '' @ score_color x @ dq @ ''>''
                           @ format_f 2 x @ ''/1.0</span>''
               | None \<Rightarrow> ''N/A''))"

text \<open>
  Lines 226, 239 and 240: \<^verbatim>\<open>issues = evaluation.get("issues", [])\<close>, then the count
  \<^verbatim>\<open>{len(issues)}\<close> and
  \<^verbatim>\<open>chr(10).join(f"- {issue}" for issue in issues) if issues else "None"\<close>.
\<close>

definition persona_issues :: "evaluation slot \<Rightarrow> error + string \<times> string" where
  "persona_issues ev =
     (case get_default ev empty_evaluation of
        None \<Rightarrow> Inl AttributeError
      | Some e \<Rightarrow>
          (case get_default (issues e) [] of
             None \<Rightarrow> Inl TypeError
           | Some xs \<Rightarrow>
               Inr (show_nat (length xs),
                    if xs \<noteq> [] then join nl (map (\<lambda>issue. ''- '' @ issue) xs) else ''None'')))"

section \<open>The pooled issue list\<close>

text \<open>
  Modelled from the spec: the function that pools the issues of the perspectives into
  \<^verbatim>\<open>aggregatedIssues\<close> (the summary's \<^verbatim>\<open>all_issues\<close>) belongs to
  \<^verbatim>\<open>multiModalValidation\<close> of the library, whose source is not among the notebook
  files; the notebook displays the stored list and never builds it. The spec:
  "\<^verbatim>\<open>all_issues\<close> is the concatenation, in input order, of each result's
  \<^verbatim>\<open>issues\<close>; no deduplication, no reordering". The issues of one result are read
  as line 193 reads them, an absent list counting as empty.
\<close>

definition issues_of :: "perspective \<Rightarrow> string list" where
  "issues_of p =
     (case get_default (evaluation p) empty_evaluation of
        None \<Rightarrow> []
      | Some e \<Rightarrow> (case get_default (issues e) [] of None \<Rightarrow> [] | Some xs \<Rightarrow> xs))"

primrec all_issues :: "perspective list \<Rightarrow> string list" where
  "all_issues [] = []"
| "all_issues (p # ps) = issues_of p @ all_issues ps"

section \<open>Properties of the configuration\<close>

lemma api_key_gemini:
  "truthy_str (gemini_api_key s) \<Longrightarrow> api_key s = gemini_api_key s"
  by (simp add: api_key_def py_or_def)

lemma api_key_openai:
  "\<not> truthy_str (gemini_api_key s) \<Longrightarrow> truthy_str (openai_api_key s) \<Longrightarrow>
   api_key s = openai_api_key s"
  by (simp add: api_key_def py_or_def)

lemma api_key_last_operand:
  "\<not> truthy_str (gemini_api_key s) \<Longrightarrow> \<not> truthy_str (openai_api_key s) \<Longrightarrow>
   api_key s = anthropic_api_key s"
  by (simp add: api_key_def py_or_def)

text \<open>
  C10. The claim: \<^verbatim>\<open>api_key\<close> is the first truthy key in the order gemini, openai,
  anthropic, and \<^verbatim>\<open>None\<close> when all three are falsy, so that an empty string counts as
  no key. The chain of \<^verbatim>\<open>or\<close> returns its last operand when nothing is truthy: with
  only \<^verbatim>\<open>anthropic_api_key = ""\<close> set, \<^verbatim>\<open>api_key\<close> is the empty string and
  \<^verbatim>\<open>has_api_key\<close> is true, while the same empty string in \<^verbatim>\<open>gemini_api_key\<close>
  gives \<^verbatim>\<open>None\<close> and false.
\<close>

theorem api_key_empty_anthropic:
  "api_key (default_settings\<lparr>anthropic_api_key := Some ''''\<rparr>) = Some ''''
   \<and> has_api_key (default_settings\<lparr>anthropic_api_key := Some ''''\<rparr>)
   \<and> api_key (default_settings\<lparr>gemini_api_key := Some ''''\<rparr>) = None
   \<and> \<not> has_api_key (default_settings\<lparr>gemini_api_key := Some ''''\<rparr>)"
  by (simp add: api_key_def has_api_key_def py_or_def truthy_str_def default_settings_def)

section \<open>Properties of the aggregated score\<close>

lemmas mock_defs = mock_result_def mock_perspective_def mock_evaluation_def

lemmas py_defs = get_def get_default_def empty_evaluation_def

lemmas fmt_defs = format_f_def round_half_even_def zero_pad_def show_nat.simps digit_def

text \<open>
  When no evaluation is bound to \<^verbatim>\<open>None\<close>, the comprehension of line 155 returns the
  scores that are present (key there, value not \<^verbatim>\<open>None\<close>), in the order of the
  perspectives.
\<close>

lemma collect_scores_present:
  "\<forall>p\<in>set ps. evaluation p \<noteq> Null \<Longrightarrow>
   collect_scores ps = Inr [x. p \<leftarrow> ps, Val e \<leftarrow> [evaluation p], Val x \<leftarrow> [score e]]"
proof (induction ps)
  case Nil
  then show ?case by simp
next
  case (Cons p ps)
  then have ih:
    "collect_scores ps = Inr [x. p \<leftarrow> ps, Val e \<leftarrow> [evaluation p], Val x \<leftarrow> [score e]]"
    by simp
  from Cons.prems have "evaluation p \<noteq> Null" by simp
  then show ?case
    by (cases "evaluation p")
       (simp_all add: ih score_of_def py_defs split: slot.splits)
qed

lemma collect_scores_length:
  "collect_scores ps = Inr scores \<Longrightarrow> length scores \<le> length ps"
proof (induction ps arbitrary: scores)
  case Nil
  then show ?case by simp
next
  case (Cons p ps)
  then show ?case
    by (fastforce split: sum.splits option.splits)
qed

lemma collect_scores_total:
  "\<forall>p\<in>set ps. evaluation p \<noteq> Null \<Longrightarrow> \<not> isl (collect_scores ps)"
proof (induction ps)
  case Nil
  then show ?case by simp
next
  case (Cons p ps)
  then have "\<not> isl (score_of p)" and "\<not> isl (collect_scores ps)"
    by (auto simp: score_of_def get_default_def split: slot.splits)
  then show ?case
    by (auto split: sum.splits option.splits)
qed

text \<open>
  C1, as stated: for every sequence of results the average is the sum of the present
  scores divided by their number, and absent when no score is present. It fails on a
  payload that stores a truthy \<^verbatim>\<open>aggregatedScore\<close>: line 156 returns the stored value
  before it looks at the scores. With 9 stored and one perspective scored 8.5 the average
  is 9, not 8.5; with 9 stored and no perspective at all it is 9, not absent.
\<close>

theorem avg_score_stored_counterexample:
  "perspective_scores (mock_result\<lparr>aggregatedScore := Val 9\<rparr>) = Inr [85 / 10]
   \<and> avg_score (mock_result\<lparr>aggregatedScore := Val 9\<rparr>) = Inr (Some 9)
   \<and> avg_score (mock_result\<lparr>aggregatedScore := Val 9\<rparr>)
       \<noteq> Inr (Some (sum_list [85 / 10] / of_nat (length [85 / 10 :: rat])))
   \<and> perspective_scores (mock_result\<lparr>perspectives := Val [], aggregatedScore := Val 9\<rparr>) = Inr []
   \<and> avg_score (mock_result\<lparr>perspectives := Val [], aggregatedScore := Val 9\<rparr>) = Inr (Some 9)"
  by (simp add: avg_score_def perspective_scores_def score_of_def truthy_num_def mean_score_def
      mock_defs py_defs)

text \<open>
  C1, amended: for every payload whose stored \<^verbatim>\<open>aggregatedScore\<close> is missing,
  \<^verbatim>\<open>None\<close> or zero, and in which no evaluation is bound to \<^verbatim>\<open>None\<close>, the average
  is the sum of the present scores divided by the number of present scores (not by the
  number of perspectives), and it is \<^verbatim>\<open>None\<close>, not zero, when no score is present.
\<close>

theorem avg_score_mean_of_present:
  assumes "get_default (perspectives r) [] = Some ps"
    and "\<forall>p\<in>set ps. evaluation p \<noteq> Null"
    and "\<not> truthy_num (get (aggregatedScore r))"
  shows "avg_score r =
     Inr (let present = [x. p \<leftarrow> ps, Val e \<leftarrow> [evaluation p], Val x \<leftarrow> [score e]]
          in if present = [] then None
             else Some (sum_list present / of_nat (length present)))"
proof -
  have "perspective_scores r = Inr [x. p \<leftarrow> ps, Val e \<leftarrow> [evaluation p], Val x \<leftarrow> [score e]]"
    using assms(1) collect_scores_present [OF assms(2)] by (simp add: perspective_scores_def)
  then show ?thesis
    using assms(3) by (simp add: avg_score_def mean_score_def Let_def)
qed

text \<open>
  Three perspectives scored 8.5, \<^verbatim>\<open>None\<close> and 7.5, nothing stored: the average is
  16 / 2 = 8, not 16 / 3; and with the only score \<^verbatim>\<open>None\<close> it is \<^verbatim>\<open>None\<close>.
\<close>

theorem avg_score_mean_of_present_witness:
  "avg_score (mock_result\<lparr>aggregatedScore := Null,
      perspectives := Val [mock_perspective,
        mock_perspective\<lparr>evaluation := Val (mock_evaluation\<lparr>score := Null\<rparr>)\<rparr>,
        mock_perspective\<lparr>evaluation := Val (mock_evaluation\<lparr>score := Val (75 / 10)\<rparr>)\<rparr>]\<rparr>)
     = Inr (Some 8)
   \<and> avg_score (mock_result\<lparr>aggregatedScore := Missing,
      perspectives := Val [mock_perspective\<lparr>evaluation := Val (mock_evaluation\<lparr>score := Null\<rparr>)\<rparr>]\<rparr>)
     = Inr None"
  using avg_score_mean_of_present [of
      "mock_result\<lparr>aggregatedScore := Null,
      perspectives := Val [mock_perspective,
        mock_perspective\<lparr>evaluation := Val (mock_evaluation\<lparr>score := Null\<rparr>)\<rparr>,
        mock_perspective\<lparr>evaluation := Val (mock_evaluation\<lparr>score := Val (75 / 10)\<rparr>)\<rparr>]\<rparr>"
      "[mock_perspective,
        mock_perspective\<lparr>evaluation := Val (mock_evaluation\<lparr>score := Null\<rparr>)\<rparr>,
        mock_perspective\<lparr>evaluation := Val (mock_evaluation\<lparr>score := Val (75 / 10)\<rparr>)\<rparr>]"]
    avg_score_mean_of_present [of
      "mock_result\<lparr>aggregatedScore := Missing,
      perspectives := Val [mock_perspective\<lparr>evaluation := Val (mock_evaluation\<lparr>score := Null\<rparr>)\<rparr>]\<rparr>"
      "[mock_perspective\<lparr>evaluation := Val (mock_evaluation\<lparr>score := Null\<rparr>)\<rparr>]"]
  by (simp add: mock_defs py_defs truthy_num_def)

text \<open>
  C9, as stated: a stored score of exactly 0 is never shown as \<^verbatim>\<open>0.0/10\<close>. The stored
  zero is skipped, but the mean that replaces it can be zero as well: with 0 stored and
  one perspective scored 0 the summary shows \<^verbatim>\<open>0.0/10\<close>.
\<close>

theorem zero_score_shown_counterexample:
  "aggregatedScore (mock_result\<lparr>aggregatedScore := Val 0,
      perspectives := Val [mock_perspective\<lparr>evaluation := Val (mock_evaluation\<lparr>score := Val 0\<rparr>)\<rparr>]\<rparr>)
     = Val 0
   \<and> shown_score (mock_result\<lparr>aggregatedScore := Val 0,
      perspectives := Val [mock_perspective\<lparr>evaluation := Val (mock_evaluation\<lparr>score := Val 0\<rparr>)\<rparr>]\<rparr>)
     = Inr ''0.0/10''"
  by (simp add: shown_score_def score_display_def avg_score_def perspective_scores_def score_of_def
      truthy_num_def mean_score_def mock_defs py_defs fmt_defs)

text \<open>
  C9, amended: the stored \<^verbatim>\<open>aggregatedScore\<close> is the average exactly when it is truthy.
  When it is missing, \<^verbatim>\<open>None\<close> or zero, the average is the mean recomputed from the
  present perspective scores, and the summary shows that mean with one decimal (which is
  \<^verbatim>\<open>0.0/10\<close> when the mean rounds to zero), or \<^verbatim>\<open>N/A\<close> when no score is present.
\<close>

theorem stored_score_only_when_truthy:
  assumes "perspective_scores r = Inr scores"
  shows "(truthy_num (get (aggregatedScore r)) \<longrightarrow> avg_score r = Inr (get (aggregatedScore r)))
   \<and> (\<not> truthy_num (get (aggregatedScore r)) \<longrightarrow>
        avg_score r = Inr (mean_score scores)
        \<and> (scores = [] \<longrightarrow> shown_score r = Inr ''N/A'')
        \<and> (scores \<noteq> [] \<longrightarrow>
             shown_score r = Inr (format_f 1 (sum_list scores / of_nat (length scores)) @ ''/10'')))"
  using assms
  by (simp add: avg_score_def shown_score_def score_display_def mean_score_def)

theorem stored_score_only_when_truthy_witness:
  "avg_score (mock_result\<lparr>aggregatedScore := Val 0\<rparr>) = Inr (Some (85 / 10))
   \<and> shown_score (mock_result\<lparr>aggregatedScore := Val 0\<rparr>) = Inr ''8.5/10''
   \<and> shown_score (mock_result\<lparr>aggregatedScore := Val 0, perspectives := Val []\<rparr>) = Inr ''N/A''
   \<and> avg_score mock_result = Inr (Some (85 / 10))"
  using stored_score_only_when_truthy [of "mock_result\<lparr>aggregatedScore := Val 0\<rparr>" "[85 / 10]"]
    stored_score_only_when_truthy
      [of "mock_result\<lparr>aggregatedScore := Val 0, perspectives := Val []\<rparr>" "[]"]
    stored_score_only_when_truthy [of mock_result "[85 / 10]"]
  by (simp add: perspective_scores_def score_of_def truthy_num_def mean_score_def
      mock_defs py_defs fmt_defs)

text \<open>
  C5, as stated: aggregating the empty sequence yields an absent average and an empty
  issue list. The mock payload with its list of perspectives emptied still stores the
  aggregates of the library: the count of perspectives is 0 and no score is present, but
  line 156 returns the stored 8.5, shown as \<^verbatim>\<open>8.5/10\<close>, and the count of issues is
  that of the stored list, 1.
\<close>

theorem empty_sequence_stored_counterexample:
  "perspectives (mock_result\<lparr>perspectives := Val []\<rparr>) = Val []
   \<and> perspectives_count (mock_result\<lparr>perspectives := Val []\<rparr>) = Inr 0
   \<and> perspective_scores (mock_result\<lparr>perspectives := Val []\<rparr>) = Inr []
   \<and> avg_score (mock_result\<lparr>perspectives := Val []\<rparr>) = Inr (Some (85 / 10))
   \<and> shown_score (mock_result\<lparr>perspectives := Val []\<rparr>) = Inr ''8.5/10''
   \<and> aggregated_issues_count (mock_result\<lparr>perspectives := Val []\<rparr>) = Inr 1"
  by (simp add: perspectives_count_def perspective_scores_def avg_score_def shown_score_def
      score_display_def aggregated_issues_count_def truthy_num_def mock_defs py_defs fmt_defs)

text \<open>
  C5, amended: for every payload with no perspectives (the key missing or an empty list)
  the score aggregation does not fail; the count of perspectives is 0, no score is
  present and no perspective details are rendered; the average is the stored
  \<^verbatim>\<open>aggregatedScore\<close> when that is truthy and \<^verbatim>\<open>None\<close>, shown as \<^verbatim>\<open>N/A\<close>,
  otherwise. The issue list is not computed from the sequence: the summary counts the
  stored \<^verbatim>\<open>aggregatedIssues\<close>, 0 when the key is missing, and then renders no list.
\<close>

theorem aggregate_empty_input:
  assumes "get_default (perspectives r) [] = Some []"
  shows "perspectives_count r = Inr 0
   \<and> perspective_scores r = Inr []
   \<and> perspective_details r = Inr None
   \<and> avg_score r =
       Inr (if truthy_num (get (aggregatedScore r)) then get (aggregatedScore r) else None)
   \<and> (\<not> truthy_num (get (aggregatedScore r)) \<longrightarrow> shown_score r = Inr ''N/A'')
   \<and> (\<forall>xs. aggregatedIssues r = Val xs \<longrightarrow> aggregated_issues_count r = Inr (length xs))
   \<and> (aggregatedIssues r = Missing \<longrightarrow>
        aggregated_issues_count r = Inr 0 \<and> aggregated_issues_md r = None)"
  using assms
  by (auto simp: perspectives_count_def avg_score_def shown_score_def score_display_def
      perspective_scores_def mean_score_def aggregated_issues_count_def perspective_details_def
      aggregated_issues_md_def get_def get_default_def split: slot.splits)

theorem aggregate_empty_input_witness:
  "perspectives_count empty_result = Inr 0
   \<and> perspective_scores empty_result = Inr []
   \<and> perspective_details empty_result = Inr None
   \<and> avg_score empty_result = Inr None
   \<and> shown_score empty_result = Inr ''N/A''
   \<and> aggregated_issues_count empty_result = Inr 0
   \<and> aggregated_issues_md empty_result = None
   \<and> perspectives_count (empty_result\<lparr>perspectives := Val [], aggregatedScore := Val 0\<rparr>) = Inr 0
   \<and> avg_score (empty_result\<lparr>perspectives := Val [], aggregatedScore := Val 0\<rparr>) = Inr None
   \<and> avg_score (empty_result\<lparr>perspectives := Val [], aggregatedScore := Val 9\<rparr>) = Inr (Some 9)"
  using aggregate_empty_input [of empty_result]
    aggregate_empty_input [of "empty_result\<lparr>perspectives := Val [], aggregatedScore := Val 0\<rparr>"]
    aggregate_empty_input [of "empty_result\<lparr>perspectives := Val [], aggregatedScore := Val 9\<rparr>"]
  by (simp add: empty_result_def truthy_num_def py_defs)

text \<open>
  C7. The count of results shown by the summary is the length of the list of
  perspectives, whatever their scores: the list of present scores can be shorter, the
  count is not.
\<close>

theorem perspectives_count_length:
  assumes "perspectives r = Val ps"
  shows "perspectives_count r = Inr (length ps)
   \<and> (\<forall>scores. perspective_scores r = Inr scores \<longrightarrow> length scores \<le> length ps)"
  using assms collect_scores_length
  by (simp add: perspectives_count_def perspective_scores_def get_default_def)

theorem perspectives_count_length_witness:
  "perspectives_count (mock_result\<lparr>perspectives := Val [mock_perspective,
        mock_perspective\<lparr>evaluation := Val (mock_evaluation\<lparr>score := Null\<rparr>)\<rparr>,
        mock_perspective\<lparr>evaluation := Missing\<rparr>]\<rparr>) = Inr 3
   \<and> perspective_scores (mock_result\<lparr>perspectives := Val [mock_perspective,
        mock_perspective\<lparr>evaluation := Val (mock_evaluation\<lparr>score := Null\<rparr>)\<rparr>,
        mock_perspective\<lparr>evaluation := Missing\<rparr>]\<rparr>) = Inr [85 / 10]"
  using perspectives_count_length [of
     "mock_result\<lparr>perspectives := Val [mock_perspective,
        mock_perspective\<lparr>evaluation := Val (mock_evaluation\<lparr>score := Null\<rparr>)\<rparr>,
        mock_perspective\<lparr>evaluation := Missing\<rparr>]\<rparr>"
     "[mock_perspective,
        mock_perspective\<lparr>evaluation := Val (mock_evaluation\<lparr>score := Null\<rparr>)\<rparr>,
        mock_perspective\<lparr>evaluation := Missing\<rparr>]"]
  by (simp add: perspective_scores_def score_of_def mock_defs py_defs)







section \<open>Properties of the report\<close>

lemma score_of_persona:
  "score_of (persona_update f p) = score_of p"
  by (simp add: score_of_def)

lemma collect_scores_persona:
  "collect_scores (map (persona_update f) ps) = collect_scores ps"
  by (induction ps) (simp_all add: score_of_persona cong: sum.case_cong option.case_cong)

text \<open>
  C2, as stated: a record without its persona identifier is rejected by the aggregator
  and by the formatter with a validation failure, and no placeholder is substituted. The
  mock perspective with the \<^verbatim>\<open>persona\<close> key removed is formatted without an
  exception, under the heading \<^verbatim>\<open>### Unknown Perspective\<close>, and its score enters the
  average.
\<close>

theorem missing_persona_counterexample:
  "perspective_entry (mock_perspective\<lparr>persona := Missing\<rparr>) =
     Inr (nl @ indent 12 @ ''### Unknown Perspective''
          @ nl @ indent 12 @ ''- **Score:** 8.5/10''
          @ nl @ indent 12 @ ''- **Focus:** aesthetics''
          @ nl @ indent 12 @ ''- **Issues:** 1''
          @ nl @ indent 12 @ ''  - Minor contrast issue''
          @ nl @ indent 12)
   \<and> avg_score (mock_result\<lparr>perspectives := Val [mock_perspective\<lparr>persona := Missing\<rparr>],
                              aggregatedScore := Missing\<rparr>) = Inr (Some (85 / 10))"
  by (simp add: perspective_entry_def score_str_def issues_text_def str_get_def avg_score_def
      perspective_scores_def score_of_def truthy_num_def mean_score_def mock_defs py_defs fmt_defs)

text \<open>
  C2, amended: the multi-modal notebook never rejects a record for its identifier. The
  scores and the average do not depend on the \<^verbatim>\<open>persona\<close> key, whether a perspective
  can be formatted does not depend on it either, and a perspective without the key is
  formatted as one whose persona is the placeholder \<^verbatim>\<open>Unknown\<close>.
\<close>

theorem persona_never_checked:
  "score_of (p\<lparr>persona := q\<rparr>) = score_of p
   \<and> collect_scores (map (persona_update (\<lambda>_. q)) ps) = collect_scores ps
   \<and> avg_score (r\<lparr>perspectives := Val (map (persona_update (\<lambda>_. q)) ps)\<rparr>)
       = avg_score (r\<lparr>perspectives := Val ps\<rparr>)
   \<and> isl (perspective_entry (p\<lparr>persona := q\<rparr>)) = isl (perspective_entry p)
   \<and> perspective_entry (p\<lparr>persona := Missing\<rparr>)
       = perspective_entry (p\<lparr>persona := Val ''Unknown''\<rparr>)"
proof -
  have avg: "avg_score (r\<lparr>perspectives := Val (map (persona_update (\<lambda>_. q)) ps)\<rparr>)
       = avg_score (r\<lparr>perspectives := Val ps\<rparr>)"
    by (simp add: avg_score_def perspective_scores_def get_default_def collect_scores_persona
        cong: sum.case_cong if_cong)
  have raises: "isl (perspective_entry (p\<lparr>persona := q\<rparr>)) = isl (perspective_entry p)"
    by (simp add: perspective_entry_def split: option.splits)
  have unknown: "perspective_entry (p\<lparr>persona := Missing\<rparr>)
       = perspective_entry (p\<lparr>persona := Val ''Unknown''\<rparr>)"
    by (simp add: perspective_entry_def str_get_def cong: option.case_cong)
  show ?thesis
    using avg raises unknown by (simp add: score_of_persona collect_scores_persona)
qed

text \<open>
  What the formatter does outside the shape it expects: a key bound to \<^verbatim>\<open>None\<close> where
  a list or a dictionary is read raises.
\<close>

lemma null_issues_raise:
  "evaluation p = Val e \<Longrightarrow> issues e = Null \<Longrightarrow> perspective_entry p = Inl TypeError"
  by (simp add: perspective_entry_def get_default_def)

lemma null_evaluation_raises:
  "evaluation p = Null \<Longrightarrow>
   perspective_entry p = Inl AttributeError \<and> score_of p = Inl AttributeError"
  by (simp add: perspective_entry_def score_of_def get_default_def)

lemma perspective_entry_total:
  assumes "evaluation p \<noteq> Null" and "\<forall>e. evaluation p = Val e \<longrightarrow> issues e \<noteq> Null"
  shows "\<not> isl (perspective_entry p)"
  using assms
  by (cases "evaluation p")
     (auto simp: perspective_entry_def get_default_def empty_evaluation_def split: slot.splits)

lemma perspective_text_total:
  "\<forall>p\<in>set ps. evaluation p \<noteq> Null \<and> (\<forall>e. evaluation p = Val e \<longrightarrow> issues e \<noteq> Null) \<Longrightarrow>
   \<not> isl (perspective_text ps)"
proof (induction ps)
  case Nil
  then show ?case by simp
next
  case (Cons p ps)
  then have "\<not> isl (perspective_entry p)" and "\<not> isl (perspective_text ps)"
    by (simp_all add: perspective_entry_total)
  then show ?case
    by (auto split: sum.splits)
qed

text \<open>
  Where the formatters are total: when every evaluation is a dictionary or missing and
  every list of issues a list or missing, nothing raises in the model, and a missing key
  has its text: \<^verbatim>\<open>N/A\<close> for an absent average and for a missing score,
  \<^verbatim>\<open>- None\<close> for an empty list of issues; in the persona notebook \<^verbatim>\<open>N/A\<close> for an
  absent score and \<^verbatim>\<open>None\<close> for no issues. (The model formats every number; Python
  raises OverflowError on an \<^verbatim>\<open>int\<close> beyond the range of a double.)
\<close>

lemma format_never_raises:
  assumes "\<forall>ps. perspectives r = Val ps \<longrightarrow>
     (\<forall>p\<in>set ps. evaluation p \<noteq> Null \<and> (\<forall>e. evaluation p = Val e \<longrightarrow> issues e \<noteq> Null))"
  shows "\<not> isl (perspective_details r)
   \<and> (perspectives r \<noteq> Null \<longrightarrow> \<not> isl (shown_score r))
   \<and> score_display None = ''N/A''
   \<and> score_str Missing = ''N/A'' \<and> score_str Null = ''None''
   \<and> issues_text (Some []) = ''  - None''
   \<and> (ev \<noteq> Null \<longrightarrow> \<not> isl (score_cell ev) \<and> \<not> isl (persona_score_display ev))
   \<and> (ev \<noteq> Null \<and> (\<forall>e. ev = Val e \<longrightarrow> get (score e) = None) \<longrightarrow>
        score_cell ev = Inr ''N/A'' \<and> persona_score_display ev = Inr ''N/A'')
   \<and> (ev \<noteq> Null \<and> (\<forall>e. ev = Val e \<longrightarrow> issues e \<noteq> Null) \<longrightarrow> \<not> isl (persona_issues ev))
   \<and> (ev \<noteq> Null \<and> (\<forall>e. ev = Val e \<longrightarrow> issues e = Missing \<or> issues e = Val []) \<longrightarrow>
        persona_issues ev = Inr (''0'', ''None''))"
proof -
  have details: "\<not> isl (perspective_details r)"
  proof (cases "perspectives r")
    case (Val ps)
    with assms have "\<not> isl (perspective_text ps)"
      by (intro perspective_text_total) simp
    with Val show ?thesis
      by (cases ps) (auto simp: perspective_details_def get_def split: sum.splits)
  qed (simp_all add: perspective_details_def get_def)
  have shown: "perspectives r \<noteq> Null \<longrightarrow> \<not> isl (shown_score r)"
  proof (cases "perspectives r")
    case (Val ps)
    with assms have "\<not> isl (collect_scores ps)"
      by (intro collect_scores_total) simp
    with Val show ?thesis
      by (auto simp: shown_score_def avg_score_def perspective_scores_def get_default_def
          split: sum.splits)
  qed (simp_all add: shown_score_def avg_score_def perspective_scores_def get_default_def)
  have cell: "ev \<noteq> Null \<longrightarrow> \<not> isl (score_cell ev) \<and> \<not> isl (persona_score_display ev)"
    by (cases ev) (simp_all add: score_cell_def persona_score_display_def get_default_def)
  have absent: "ev \<noteq> Null \<and> (\<forall>e. ev = Val e \<longrightarrow> get (score e) = None) \<longrightarrow>
        score_cell ev = Inr ''N/A'' \<and> persona_score_display ev = Inr ''N/A''"
    by (cases ev) (simp_all add: score_cell_def persona_score_display_def py_defs)
  have listed: "ev \<noteq> Null \<and> (\<forall>e. ev = Val e \<longrightarrow> issues e \<noteq> Null) \<longrightarrow> \<not> isl (persona_issues ev)"
    by (cases ev) (auto simp: persona_issues_def py_defs split: slot.splits)
  have none: "ev \<noteq> Null \<and> (\<forall>e. ev = Val e \<longrightarrow> issues e = Missing \<or> issues e = Val []) \<longrightarrow>
        persona_issues ev = Inr (''0'', ''None'')"
    by (cases ev) (auto simp: persona_issues_def py_defs show_nat.simps digit_def split: slot.splits)
  show ?thesis
    using details shown cell absent listed none
    by (simp add: score_display_def score_str_def issues_text_def)
qed

text \<open>
  Two perspectives, the first an empty dictionary, the second with its score bound to
  \<^verbatim>\<open>None\<close> and no issues; and a persona evaluation whose score is \<^verbatim>\<open>None\<close>.
\<close>

lemma format_never_raises_example:
  "perspective_details (empty_result\<lparr>perspectives := Val [
       \<lparr>persona = Missing, focus = Missing, evaluation = Missing\<rparr>,
       mock_perspective\<lparr>evaluation := Val (empty_evaluation\<lparr>score := Null, issues := Val []\<rparr>)\<rparr>]\<rparr>)
   = Inr (Some (''## Perspective Details'' @ nl
        @ nl @ indent 12 @ ''### Unknown Perspective''
        @ nl @ indent 12 @ ''- **Score:** N/A''
        @ nl @ indent 12 @ ''- **Focus:** N/A''
        @ nl @ indent 12 @ ''- **Issues:** 0''
        @ nl @ indent 12 @ ''  - None''
        @ nl @ indent 12 @ nl
        @ nl @ indent 12 @ ''### Design Critic Perspective''
        @ nl @ indent 12 @ ''- **Score:** None''
        @ nl @ indent 12 @ ''- **Focus:** aesthetics''
        @ nl @ indent 12 @ ''- **Issues:** 0''
        @ nl @ indent 12 @ ''  - None''
        @ nl @ indent 12))
   \<and> shown_score (empty_result\<lparr>perspectives := Val [
       \<lparr>persona = Missing, focus = Missing, evaluation = Missing\<rparr>,
       mock_perspective\<lparr>evaluation := Val (empty_evaluation\<lparr>score := Null, issues := Val []\<rparr>)\<rparr>]\<rparr>)
     = Inr ''N/A''
   \<and> persona_score_display (Val (empty_evaluation\<lparr>score := Null\<rparr>)) = Inr ''N/A''
   \<and> persona_issues (Val (empty_evaluation\<lparr>score := Null\<rparr>)) = Inr (''0'', ''None'')"
  using format_never_raises [of
     "empty_result\<lparr>perspectives := Val [
       \<lparr>persona = Missing, focus = Missing, evaluation = Missing\<rparr>,
       mock_perspective\<lparr>evaluation := Val (empty_evaluation\<lparr>score := Null, issues := Val []\<rparr>)\<rparr>]\<rparr>"
     "Val (empty_evaluation\<lparr>score := Null\<rparr>)"]
  by (simp add: perspective_details_def perspective_entry_def score_str_def issues_text_def
      str_get_def shown_score_def score_display_def avg_score_def perspective_scores_def
      score_of_def truthy_num_def mean_score_def empty_result_def mock_defs py_defs fmt_defs)

text \<open>
  C4. The claim: the formatter never raises when an optional field is absent, and shows
  the "not available" marker for an absent score. The defaults of
  \<^verbatim>\<open>get(key, default)\<close> cover a missing key only. For a key bound to \<^verbatim>\<open>None\<close>,
  which line 155 and the persona notebook treat as absent, the perspective details
  diverge: a score of \<^verbatim>\<open>None\<close> is shown as the text \<^verbatim>\<open>None\<close> (the persona
  notebook shows \<^verbatim>\<open>N/A\<close> for the same evaluation); issues of \<^verbatim>\<open>None\<close> pass the
  guard of line 195, which gives \<^verbatim>\<open>- None\<close>, and then raise TypeError in
  \<^verbatim>\<open>len(issues)\<close>, at line 200 as at line 239 of the persona notebook; an
  evaluation of \<^verbatim>\<open>None\<close> raises AttributeError.
\<close>

theorem format_none_valued_fields:
  "perspective_entry (mock_perspective\<lparr>evaluation := Val (mock_evaluation\<lparr>score := Null\<rparr>)\<rparr>) =
     Inr (nl @ indent 12 @ ''### Design Critic Perspective''
          @ nl @ indent 12 @ ''- **Score:** None''
          @ nl @ indent 12 @ ''- **Focus:** aesthetics''
          @ nl @ indent 12 @ ''- **Issues:** 1''
          @ nl @ indent 12 @ ''  - Minor contrast issue''
          @ nl @ indent 12)
   \<and> persona_score_display (Val (mock_evaluation\<lparr>score := Null\<rparr>)) = Inr ''N/A''
   \<and> score_cell (Val (mock_evaluation\<lparr>score := Null\<rparr>)) = Inr ''N/A''
   \<and> shown_score (mock_result\<lparr>aggregatedScore := Null,
        perspectives := Val [mock_perspective\<lparr>evaluation := Val (mock_evaluation\<lparr>score := Null\<rparr>)\<rparr>]\<rparr>)
       = Inr ''N/A''
   \<and> issues_text None = ''  - None''
   \<and> perspective_entry (mock_perspective\<lparr>evaluation := Val (mock_evaluation\<lparr>issues := Null\<rparr>)\<rparr>)
       = Inl TypeError
   \<and> persona_issues (Val (mock_evaluation\<lparr>issues := Null\<rparr>)) = Inl TypeError
   \<and> perspective_entry (mock_perspective\<lparr>evaluation := Null\<rparr>) = Inl AttributeError
   \<and> persona_score_display Null = Inl AttributeError"
  by (simp add: perspective_entry_def score_str_def issues_text_def str_get_def
      persona_score_display_def score_cell_def persona_issues_def shown_score_def
      score_display_def avg_score_def perspective_scores_def score_of_def truthy_num_def
      mean_score_def mock_defs py_defs fmt_defs)

section \<open>Properties of the pooled issue list\<close>

text \<open>
  C6. The pooled list is the concatenation of the issues of each result in input order:
  nothing is dropped, merged or moved, so its length is the sum of the lengths, and
  pooling two sequences one after the other is pooling each and appending. When the
  payload stores that list, the count of issues shown by the summary (line 174) is that
  sum.
\<close>

theorem all_issues_concat:
  "all_issues ps = concat (map issues_of ps)
   \<and> length (all_issues ps) = sum_list (map (\<lambda>p. length (issues_of p)) ps)
   \<and> all_issues (ps @ qs) = all_issues ps @ all_issues qs
   \<and> (aggregatedIssues r = Val (all_issues ps) \<longrightarrow>
        aggregated_issues_count r = Inr (sum_list (map (\<lambda>p. length (issues_of p)) ps)))"
proof -
  have c: "all_issues xs = concat (map issues_of xs)" for xs
    by (induction xs) simp_all
  show ?thesis
    by (simp add: c length_concat comp_def aggregated_issues_count_def get_default_def)
qed

text \<open>
  The mock payload stores the pooled issues of its perspectives; with a second copy of
  the perspective the duplicate is kept.
\<close>

theorem all_issues_concat_witness:
  "aggregatedIssues mock_result = Val (all_issues [mock_perspective])
   \<and> aggregated_issues_count mock_result = Inr 1
   \<and> all_issues [mock_perspective, mock_perspective\<lparr>evaluation := Missing\<rparr>, mock_perspective]
       = [''Minor contrast issue'', ''Minor contrast issue'']"
  using all_issues_concat [of "[mock_perspective]" "[]" mock_result]
  by (simp add: issues_of_def mock_defs py_defs)

end
